theory Spec2Isabelle
  imports Complex_Main "HOL-Library.Word"
begin

section \<open>Data model of pyserver.py\<close>

text \<open>
  Python floats are modelled as \<^typ>\<open>real\<close> and Python ints as \<^typ>\<open>int\<close>: the
  development is about the branches and formulas of the program, not about rounding.
  Exceptions are values; the connection loop tells three groups of exception classes apart
  (\<open>except WebSocketDisconnect\<close>, \<open>except RuntimeError\<close>, \<open>except Exception\<close>), and every
  exception carries the text that \<open>str(exc)\<close> yields.
\<close>

datatype exn =
    WebSocketDisconnect
  | RuntimeError string
  | ValueError string
  | TypeError string
  | AttributeError string
  | IndexError string
  | OtherError string

fun exn_str :: "exn \<Rightarrow> string" where
  "exn_str WebSocketDisconnect = []"
| "exn_str (RuntimeError s) = s"
| "exn_str (ValueError s) = s"
| "exn_str (TypeError s) = s"
| "exn_str (AttributeError s) = s"
| "exn_str (IndexError s) = s"
| "exn_str (OtherError s) = s"

text \<open>A landmark of MediaPipe: a point with normalised coordinates \<open>x\<close>, \<open>y\<close>, \<open>z\<close>.\<close>

datatype landmark = Landmark (lm_x: real) (lm_y: real) (lm_z: real)

text \<open>A blendshape category: \<open>entry.category_name\<close> and \<open>entry.score\<close>.\<close>

record category =
  category_name :: string
  score :: real

text \<open>
  \<open>vision.FaceLandmarkerResult\<close>: one entry per detected face in each of the three lists.
  A transformation matrix is kept as the flat row-major list of its entries, which
  \<open>np.array(matrix).reshape((4, 4))\<close> accepts exactly when there are 16 of them.
\<close>

record detection_result =
  face_landmarks :: "landmark list list"
  face_blendshapes :: "category list list"
  facial_transformation_matrixes :: "real list list"

subsection \<open>FaceTracker\<close>

text \<open>
  The \<open>asyncio.Future\<close> held in \<open>self._future\<close>: not yet done, done with the pair that
  \<open>set_result\<close> stored, or cancelled (what \<open>asyncio.wait_for\<close> does to it on timeout).
\<close>

datatype 'a future_state = Pending | Done 'a | Cancelled

record tracker =
  future :: "(detection_result \<times> int) future_state option"
  latest :: "detection_result option"
  latest_ts :: int
  fps_hist :: "int list"

definition init_tracker :: tracker where
  "init_tracker = \<lparr>future = None, latest = None, latest_ts = 0, fps_hist = []\<rparr>"

text \<open>\<open>FaceTracker._on_result\<close>, the callback the detection engine invokes.\<close>

definition on_result :: "tracker \<Rightarrow> detection_result \<Rightarrow> int \<Rightarrow> tracker" where
  "on_result tr res timestamp_ms =
     (let tr1 = tr\<lparr>latest := Some res, latest_ts := timestamp_ms\<rparr>
      in if future tr1 = Some Pending
         then tr1\<lparr>future := Some (Done (res, timestamp_ms))\<rparr>
         else tr1)"

text \<open>\<open>FaceTracker.fps\<close>.\<close>

definition fps :: "tracker \<Rightarrow> real" where
  "fps tr =
     (if length (fps_hist tr) < 2 then 0
      else let dt = last (fps_hist tr) - hd (fps_hist tr)
           in if dt \<le> 0 then 0
              else (real (length (fps_hist tr)) - 1) / (real_of_int dt / 1000))"

text \<open>
  What the detection engine does while \<open>process\<close> runs: \<open>detect_async\<close> (or the
  construction of the \<open>mp.Image\<close>) raises; or the result callback fires within the
  1.0 s of \<open>asyncio.wait_for\<close>, delivering a result and the timestamp of the frame it was
  computed from; or the second elapses with no callback.
\<close>

datatype engine_event =
    DetectRaises exn
  | CallbackFires detection_result int
  | TimeoutElapses

text \<open>Lines 142 to 144: \<open>self._fps_hist.append(ts)\<close>, then one \<open>pop(0)\<close> above 30 entries.\<close>

definition record_completion :: "int \<Rightarrow> int list \<Rightarrow> int list" where
  "record_completion t h =
     (let h1 = h @ [t] in if length h1 > 30 then tl h1 else h1)"

text \<open>
  \<open>FaceTracker.process\<close>. The frame itself only travels to the engine; \<open>ts_ms\<close> is the
  timestamp submitted with it. The callback runs \<open>on_result\<close> on the tracker, and the
  awaiting coroutine then reads the future it created.
\<close>

definition process ::
  "tracker \<Rightarrow> int \<Rightarrow> engine_event \<Rightarrow> (exn + detection_result option) \<times> tracker" where
  "process tr ts_ms ev =
     (let tr1 = tr\<lparr>future := Some Pending\<rparr>
      in case ev of
           DetectRaises e \<Rightarrow> (Inl e, tr1)
         | TimeoutElapses \<Rightarrow> (Inr None, tr1\<lparr>future := Some Cancelled\<rparr>)
         | CallbackFires res t \<Rightarrow>
             (let tr2 = on_result tr1 res t
              in case future tr2 of
                   Some (Done (result, t')) \<Rightarrow>
                     (Inr (Some result), tr2\<lparr>fps_hist := record_completion t' (fps_hist tr2)\<rparr>)
                 | _ \<Rightarrow> (Inr None, tr2\<lparr>future := Some Cancelled\<rparr>)))"

text \<open>
  A run of \<open>process\<close> calls, one per frame, each with the frame timestamp and what the
  engine does during the call; \<open>completions\<close> lists the timestamps of the completions
  recorded on the way, in order of arrival.
\<close>

fun run_events :: "tracker \<Rightarrow> (int \<times> engine_event) list \<Rightarrow> tracker" where
  "run_events tr [] = tr"
| "run_events tr ((ts_ms, ev) # es) = run_events (snd (process tr ts_ms ev)) es"

fun completion_of :: "engine_event \<Rightarrow> int list" where
  "completion_of (CallbackFires res t) = [t]"
| "completion_of (DetectRaises e) = []"
| "completion_of TimeoutElapses = []"

definition completions :: "(int \<times> engine_event) list \<Rightarrow> int list" where
  "completions es = concat (map (\<lambda>e. completion_of (snd e)) es)"

subsection \<open>Pose estimation\<close>

text \<open>
  \<open>math.degrees\<close> and \<open>math.atan2\<close> of the standard library. \<open>atan2 y x\<close> is the angle of
  the point \<open>(x, y)\<close> in \<open>(-pi, pi]\<close>; it is defined for every pair of arguments, with
  \<open>atan2 0 0 = 0\<close>, and divides nothing by zero (the quotient below is formed only for
  \<open>x \<noteq> 0\<close>).
\<close>

definition degrees :: "real \<Rightarrow> real" where
  "degrees a = a * 180 / pi"

definition atan2 :: "real \<Rightarrow> real \<Rightarrow> real" where
  "atan2 y x =
     (if 0 < x then arctan (y / x)
      else if x < 0 then (if 0 \<le> y then arctan (y / x) + pi else arctan (y / x) - pi)
      else if 0 < y then pi / 2
      else if y < 0 then - (pi / 2)
      else 0)"

text \<open>
  \<open>extract_pose_from_matrix\<close>. \<open>r i j\<close> is \<open>r[i, j]\<close> of the reshaped matrix; the list
  returned by the source, \<open>[yaw, pitch, roll]\<close>, is a triple here.
\<close>

definition extract_pose_from_matrix :: "real list \<Rightarrow> exn + real \<times> real \<times> real" where
  "extract_pose_from_matrix matrix =
     (if length matrix \<noteq> 16 then Inl (ValueError ''cannot reshape array into shape (4,4)'')
      else
        let r = (\<lambda>i j. matrix ! (4 * i + j));
            sy = sqrt (r 0 0 * r 0 0 + r 1 0 * r 1 0);
            singular = (sy < 1 / 1000000)
        in if \<not> singular
           then Inr (degrees (atan2 (- r 2 0) sy),
                     degrees (atan2 (r 2 1) (r 2 2)),
                     degrees (atan2 (r 1 0) (r 0 0)))
           else Inr (degrees (atan2 (- r 2 0) sy),
                     degrees (atan2 (- r 1 2) (r 1 1)),
                     0))"

text \<open>
  \<open>estimate_pose_from_landmarks\<close>. The three \<open>np.array\<close> vectors are lists of three
  coordinates; indexing a landmark list that has no entry 263 raises \<open>IndexError\<close>.
\<close>

definition lm_vec :: "landmark \<Rightarrow> real list" where
  "lm_vec p = [lm_x p, lm_y p, lm_z p]"

definition estimate_pose_from_landmarks :: "landmark list \<Rightarrow> exn + real \<times> real \<times> real" where
  "estimate_pose_from_landmarks landmarks =
     (if length landmarks \<le> 263 then Inl (IndexError ''list index out of range'')
      else
        let left_eye = lm_vec (landmarks ! 33);
            right_eye = lm_vec (landmarks ! 263);
            nose = lm_vec (landmarks ! 1);
            eye_vec = map2 (-) right_eye left_eye
        in Inr (degrees (atan2 (eye_vec ! 2) (eye_vec ! 0)),
                degrees (atan2 (nose ! 2) (eye_vec ! 1)),
                degrees (atan2 (eye_vec ! 1) (eye_vec ! 0))))"

subsection \<open>The header and the payload\<close>

text \<open>
  A value as \<open>json.loads\<close> returns it. An object is the association list of the
  \<open>dict\<close> (one entry per key). The non-finite floats that \<open>json.loads\<close> accepts are
  outside this model.
\<close>

datatype jvalue =
    JNull
  | JBool bool
  | JInt int
  | JFloat real
  | JStr string
  | JArr "jvalue list"
  | JObj "(string \<times> jvalue) list"

text \<open>\<open>header.get(key)\<close>: only a \<open>dict\<close> has the method.\<close>

definition header_get :: "jvalue \<Rightarrow> string \<Rightarrow> exn + jvalue option" where
  "header_get header key =
     (case header of
        JObj kvs \<Rightarrow> Inr (map_of kvs key)
      | _ \<Rightarrow> Inl (AttributeError ''object has no attribute get''))"

text \<open>
  \<open>int(v)\<close>: a float is truncated towards zero; a string is parsed by the function given
  (\<open>None\<close> where Python finds no integer literal in it); \<open>None\<close>, lists and dicts are
  refused.
\<close>

definition py_trunc :: "real \<Rightarrow> int" where
  "py_trunc a = (if 0 \<le> a then \<lfloor>a\<rfloor> else \<lceil>a\<rceil>)"

fun py_int :: "(string \<Rightarrow> int option) \<Rightarrow> jvalue \<Rightarrow> exn + int" where
  "py_int parse (JInt i) = Inr i"
| "py_int parse (JBool b) = Inr (if b then 1 else 0)"
| "py_int parse (JFloat a) = Inr (py_trunc a)"
| "py_int parse (JStr s) =
     (case parse s of
        Some i \<Rightarrow> Inr i
      | None \<Rightarrow> Inl (ValueError ''invalid literal for int() with base 10''))"
| "py_int parse v = Inl (TypeError ''int() argument must be a string or a real number'')"

text \<open>The truth value Python gives to \<open>header.get("ts")\<close>.\<close>

fun py_truthy :: "jvalue option \<Rightarrow> bool" where
  "py_truthy None = False"
| "py_truthy (Some JNull) = False"
| "py_truthy (Some (JBool b)) = b"
| "py_truthy (Some (JInt i)) = (i \<noteq> 0)"
| "py_truthy (Some (JFloat a)) = (a \<noteq> 0)"
| "py_truthy (Some (JStr s)) = (s \<noteq> [])"
| "py_truthy (Some (JArr vs)) = (vs \<noteq> [])"
| "py_truthy (Some (JObj kvs)) = (kvs \<noteq> [])"

text \<open>
  The output payload, one field per leaf of the nested dictionary that
  \<open>build_empty_payload\<close> builds (\<open>pose.yawDeg\<close> is \<open>pose_yawDeg\<close>, and so on).
\<close>

record payload =
  payload_ts :: int
  payload_present :: bool
  pose_yawDeg :: real
  pose_pitchDeg :: real
  pose_rollDeg :: real
  eye_leftOpen :: real
  eye_rightOpen :: real
  mouth_open :: real
  mouth_smile :: real
  brow_leftUp :: real
  brow_rightUp :: real
  debug_serverFps :: real
  debug_latencyMs :: int

definition build_empty_payload :: "int \<Rightarrow> bool \<Rightarrow> payload" where
  "build_empty_payload ts_ms present =
     \<lparr>payload_ts = ts_ms, payload_present = present,
      pose_yawDeg = 0, pose_pitchDeg = 0, pose_rollDeg = 0,
      eye_leftOpen = 1, eye_rightOpen = 1,
      mouth_open = 0, mouth_smile = 0,
      brow_leftUp = 0, brow_rightUp = 0,
      debug_serverFps = 0, debug_latencyMs = 0\<rparr>"

text \<open>\<open>blendshape_lookup\<close>: the first entry of the first face with the name asked for.\<close>

fun find_score :: "category list \<Rightarrow> string \<Rightarrow> real" where
  "find_score [] name = 0"
| "find_score (entry # rest) name =
     (if category_name entry = name then score entry else find_score rest name)"

definition blendshape_lookup :: "category list list \<Rightarrow> string \<Rightarrow> real" where
  "blendshape_lookup blendshapes name =
     (case blendshapes of [] \<Rightarrow> 0 | first # _ \<Rightarrow> find_score first name)"

subsection \<open>The environment of one message\<close>

text \<open>
  Everything the handling of one message takes from outside the program: the libraries
  (\<open>bytes.decode\<close> followed by \<open>json.loads\<close>, the two image decoders of
  \<open>decode_jpeg\<close>, the integer literals that \<open>int\<close> accepts), the three readings of
  \<open>time.time() * 1000\<close> (lines 75, 184 and 211), what the detection engine does during
  \<open>process\<close>, and whether \<open>websocket.send_text\<close> accepts a text or raises.
\<close>

type_synonym bytes = "8 word list"
type_synonym frame = "8 word list"

datatype wire = PayloadMsg payload | ErrorMsg string

record env =
  loads :: "bytes \<Rightarrow> exn + jvalue"
  cv2_imdecode :: "bytes \<Rightarrow> exn + frame option"
  pil_open_rgb :: "bytes \<Rightarrow> frame option"
  cv2_cvtColor :: "frame \<Rightarrow> frame"
  int_of_str :: "string \<Rightarrow> int option"
  time_recv :: real
  time_build :: real
  time_latency :: real
  engine :: engine_event
  send_text :: "wire \<Rightarrow> exn option"

text \<open>\<open>decode_jpeg\<close>: OpenCV first, Pillow when OpenCV returns \<open>None\<close>.\<close>

definition decode_jpeg :: "env \<Rightarrow> bytes \<Rightarrow> exn + frame option" where
  "decode_jpeg env jpeg_bytes =
     (case cv2_imdecode env jpeg_bytes of
        Inl e \<Rightarrow> Inl e
      | Inr None \<Rightarrow> Inr (pil_open_rgb env jpeg_bytes)
      | Inr (Some img_bgr) \<Rightarrow> Inr (Some (cv2_cvtColor env img_bgr)))"

text \<open>\<open>int(header.get("ts", time.time() * 1000))\<close>, with the clock reading given.\<close>

definition header_ts :: "env \<Rightarrow> jvalue \<Rightarrow> real \<Rightarrow> exn + int" where
  "header_ts env header now =
     (case header_get header ''ts'' of
        Inl e \<Rightarrow> Inl e
      | Inr None \<Rightarrow> py_int (int_of_str env) (JFloat now)
      | Inr (Some v) \<Rightarrow> py_int (int_of_str env) v)"

text \<open>\<open>build_payload\<close>.\<close>

definition build_payload ::
  "env \<Rightarrow> detection_result option \<Rightarrow> jvalue \<Rightarrow> real \<Rightarrow> exn + payload" where
  "build_payload env result header fps_server =
     (case header_ts env header (time_build env) of
        Inl e \<Rightarrow> Inl e
      | Inr ts_ms \<Rightarrow>
          let payload = (build_empty_payload ts_ms False)\<lparr>debug_serverFps := fps_server\<rparr>
          in case result of
               None \<Rightarrow> Inr payload
             | Some res \<Rightarrow>
                 if length (face_landmarks res) = 0 then Inr payload
                 else
                   let blend = face_blendshapes res;
                       smile_left = blendshape_lookup blend ''mouthSmileLeft'';
                       smile_right = blendshape_lookup blend ''mouthSmileRight'';
                       payload = payload
                         \<lparr>payload_present := True,
                          eye_leftOpen := max 0 (1 - blendshape_lookup blend ''eyeBlinkLeft''),
                          eye_rightOpen := max 0 (1 - blendshape_lookup blend ''eyeBlinkRight''),
                          mouth_open := min 1 (blendshape_lookup blend ''jawOpen''),
                          mouth_smile := (smile_left + smile_right) * (1 / 2),
                          brow_leftUp := max (blendshape_lookup blend ''browInnerUp'')
                                             (blendshape_lookup blend ''browOuterUpLeft''),
                          brow_rightUp := max (blendshape_lookup blend ''browInnerUp'')
                                              (blendshape_lookup blend ''browOuterUpRight'')\<rparr>
                   in case (if facial_transformation_matrixes res \<noteq> []
                            then extract_pose_from_matrix (hd (facial_transformation_matrixes res))
                            else estimate_pose_from_landmarks (hd (face_landmarks res))) of
                        Inl e \<Rightarrow> Inl e
                      | Inr (yaw, pitch, roll) \<Rightarrow>
                          let payload = payload
                                \<lparr>pose_yawDeg := yaw, pose_pitchDeg := pitch, pose_rollDeg := roll\<rparr>
                          in case header_get header ''ts'' of
                               Inl e \<Rightarrow> Inl e
                             | Inr v \<Rightarrow>
                                 if py_truthy v
                                 then (case py_int (int_of_str env) (the v) of
                                         Inl e \<Rightarrow> Inl e
                                       | Inr t \<Rightarrow>
                                           Inr (payload\<lparr>debug_latencyMs :=
                                                  max 0 (py_trunc (time_latency env) - t)\<rparr>))
                                 else Inr payload)"

subsection \<open>The connection loop\<close>

text \<open>
  What \<open>websocket.receive()\<close> returns: a disconnect, a message without \<open>"bytes"\<close>, or a
  binary buffer.
\<close>

datatype ws_message = Disconnect | NoBytes | Bytes bytes

datatype control = Continue | Break

text \<open>\<open>int.from_bytes(b, "little")\<close>.\<close>

fun from_bytes_little :: "bytes \<Rightarrow> nat" where
  "from_bytes_little [] = 0"
| "from_bytes_little (b # bs) = unat b + 256 * from_bytes_little bs"

text \<open>
  \<open>await websocket.send_text(json.dumps(w))\<close> inside the \<open>try\<close>: the text goes out, or
  the exception of the transport is raised.
\<close>

definition send_in_try ::
  "env \<Rightarrow> wire \<Rightarrow> tracker \<Rightarrow> (exn + control) \<times> wire list \<times> tracker" where
  "send_in_try env w tr =
     (case send_text env w of
        None \<Rightarrow> (Inr Continue, [w], tr)
      | Some e \<Rightarrow> (Inl e, [], tr))"

text \<open>
  The body of the \<open>try\<close> (lines 65 to 81): how it ends (\<open>continue\<close> and falling off the
  end are both \<open>Continue\<close>), the texts sent, and the tracker afterwards.
\<close>

definition try_body ::
  "env \<Rightarrow> tracker \<Rightarrow> ws_message \<Rightarrow> (exn + control) \<times> wire list \<times> tracker" where
  "try_body env tr message =
     (case message of
        Disconnect \<Rightarrow> (Inr Break, [], tr)
      | NoBytes \<Rightarrow> (Inr Continue, [], tr)
      | Bytes raw \<Rightarrow>
          let header_len = from_bytes_little (take 4 raw)
          in case loads env (take header_len (drop 4 raw)) of
               Inl e \<Rightarrow> (Inl e, [], tr)
             | Inr header \<Rightarrow>
                 let jpeg_bytes = drop (4 + header_len) raw
                 in case decode_jpeg env jpeg_bytes of
                      Inl e \<Rightarrow> (Inl e, [], tr)
                    | Inr frame_rgb \<Rightarrow>
                        (case header_ts env header (time_recv env) of
                           Inl e \<Rightarrow> (Inl e, [], tr)
                         | Inr ts_ms \<Rightarrow>
                             (case frame_rgb of
                                None \<Rightarrow>
                                  send_in_try env (PayloadMsg (build_empty_payload ts_ms False)) tr
                              | Some _ \<Rightarrow>
                                  (case process tr ts_ms (engine env) of
                                     (Inl e, tr') \<Rightarrow> (Inl e, [], tr')
                                   | (Inr result, tr') \<Rightarrow>
                                       (case build_payload env result header (fps tr') of
                                          Inl e \<Rightarrow> (Inl e, [], tr')
                                        | Inr payload \<Rightarrow>
                                            send_in_try env (PayloadMsg payload) tr')))))"

text \<open>
  The three \<open>except\<close> clauses (lines 82 to 92), in their order. The last one tries to send
  the error text and ignores a failure of that send.
\<close>

fun except_clauses :: "env \<Rightarrow> exn \<Rightarrow> wire list \<times> control" where
  "except_clauses env WebSocketDisconnect = ([], Break)"
| "except_clauses env (RuntimeError s) = ([], Break)"
| "except_clauses env e =
     (case send_text env (ErrorMsg (exn_str e)) of
        None \<Rightarrow> ([ErrorMsg (exn_str e)], Continue)
      | Some _ \<Rightarrow> ([], Continue))"

text \<open>One turn of the \<open>while True\<close> loop.\<close>

definition handle_message ::
  "env \<Rightarrow> tracker \<Rightarrow> ws_message \<Rightarrow> wire list \<times> control \<times> tracker" where
  "handle_message env tr message =
     (case try_body env tr message of
        (Inr c, sent, tr') \<Rightarrow> (sent, c, tr')
      | (Inl e, sent, tr') \<Rightarrow>
          (sent @ fst (except_clauses env e), snd (except_clauses env e), tr'))"

text \<open>
  \<open>ws_track\<close> on the messages that arrive, each with its environment: the texts sent and
  the tracker when the loop has left or the messages are used up.
\<close>

fun ws_track :: "tracker \<Rightarrow> (env \<times> ws_message) list \<Rightarrow> wire list \<times> tracker" where
  "ws_track tr [] = ([], tr)"
| "ws_track tr ((env, message) # rest) =
     (case handle_message env tr message of
        (sent, Break, tr') \<Rightarrow> (sent, tr')
      | (sent, Continue, tr') \<Rightarrow>
          (sent @ fst (ws_track tr' rest), snd (ws_track tr' rest)))"

subsection \<open>Concrete inputs\<close>

text \<open>A detection result with one face of a single landmark, and nothing else.\<close>

definition example_result :: detection_result where
  "example_result = \<lparr>face_landmarks = [[Landmark 0 0 0]], face_blendshapes = [],
     facial_transformation_matrixes = []\<rparr>"

text \<open>
  A header with \<open>ts = 1000\<close>, the bytes of its text \<open>{"ts":1000}\<close>, and an environment:
  its \<open>loads\<close> agrees with the library on that text and on the empty text (which
  \<open>json.loads\<close> refuses with the message given), the only two header texts used with
  it; OpenCV decodes every buffer but the empty one, every send is accepted, and the
  engine lets the call time out unless stated otherwise.
\<close>

definition example_header :: jvalue where
  "example_header = JObj [(''ts'', JInt 1000)]"

definition ts_header_bytes :: bytes where
  "ts_header_bytes = [123, 34, 116, 115, 34, 58, 49, 48, 48, 48, 125]"

definition example_loads :: "bytes \<Rightarrow> exn + jvalue" where
  "example_loads bs =
     (if bs = ts_header_bytes then Inr example_header
      else Inl (ValueError ''Expecting value: line 1 column 1 (char 0)''))"

definition example_env :: env where
  "example_env =
     \<lparr>loads = example_loads,
      cv2_imdecode = (\<lambda>bs. if bs = [] then Inr None else Inr (Some bs)),
      pil_open_rgb = (\<lambda>bs. None),
      cv2_cvtColor = (\<lambda>img. img),
      int_of_str = (\<lambda>s. None),
      time_recv = 5000,
      time_build = 5000,
      time_latency = 5000,
      engine = TimeoutElapses,
      send_text = (\<lambda>w. None)\<rparr>"

text \<open>
  A rotation by 90 degrees about the second axis, whose \<open>r00\<close> and \<open>r10\<close> are 0; a face
  of 264 landmarks with the right eye corner at \<open>(1, 1, 0)\<close> and every other landmark at
  the origin; results with that face.
\<close>

definition singular_matrix :: "real list" where
  "singular_matrix = [0, 0, 1, 0,  0, 1, 0, 0,  -1, 0, 0, 0,  0, 0, 0, 1]"

definition tilted_landmarks :: "landmark list" where
  "tilted_landmarks = (replicate 264 (Landmark 0 0 0))[263 := Landmark 1 1 0]"

definition tilted_result :: detection_result where
  "tilted_result = \<lparr>face_landmarks = [tilted_landmarks],
     face_blendshapes = [[\<lparr>category_name = ''jawOpen'', score = 3 / 5\<rparr>]],
     facial_transformation_matrixes = []\<rparr>"

definition smiling_result :: detection_result where
  "smiling_result = \<lparr>face_landmarks = [tilted_landmarks],
     face_blendshapes = [[\<lparr>category_name = ''mouthSmileLeft'', score = 2\<rparr>,
                          \<lparr>category_name = ''mouthSmileRight'', score = 2\<rparr>,
                          \<lparr>category_name = ''eyeBlinkLeft'', score = -1\<rparr>]],
     facial_transformation_matrixes = []\<rparr>"

text \<open>
  A well-formed buffer: the header length 11, the header text \<open>{"ts":1000}\<close>, and two
  bytes of image.
\<close>

definition example_raw :: bytes where
  "example_raw = [11, 0, 0, 0] @ ts_header_bytes @ [255, 216]"

section \<open>Properties of the tracker\<close>

lemma process_timeout_eq:
  "process tr ts_ms TimeoutElapses = (Inr None, tr\<lparr>future := Some Cancelled\<rparr>)"
  by (simp add: process_def)

lemma process_callback_eq:
  "process tr ts_ms (CallbackFires res t) =
     (Inr (Some res),
      tr\<lparr>future := Some (Done (res, t)), latest := Some res, latest_ts := t,
         fps_hist := record_completion t (fps_hist tr)\<rparr>)"
  by (simp add: process_def on_result_def Let_def)

lemma length_record_completion:
  "length h \<le> 30 \<Longrightarrow> length (record_completion t h) \<le> 30"
  by (simp add: record_completion_def Let_def)

lemma tl_is_drop: "tl xs = drop (Suc 0) xs"
  by (cases xs) simp_all

lemma record_completion_drop:
  "length h \<le> 30 \<Longrightarrow>
   record_completion t h = drop (length (h @ [t]) - 30) (h @ [t])"
proof (cases "length h = 30")
  case True
  then show ?thesis
    by (simp add: record_completion_def Let_def tl_is_drop)
next
  case False
  assume "length h \<le> 30"
  with False have "length h < 30" by simp
  then show ?thesis
    by (simp add: record_completion_def Let_def)
qed

lemma drop_last_append:
  "drop (length (drop (length xs - n) xs @ ys) - n) (drop (length xs - n) xs @ ys) =
   drop (length (xs @ ys) - n) (xs @ ys)"
proof (cases "length xs \<le> n")
  case True
  then show ?thesis by simp
next
  case False
  then have "n < length xs" by simp
  then show ?thesis by (simp add: add.commute)
qed

lemma process_hist:
  "fps_hist (snd (process tr ts_ms ev)) =
     (case ev of CallbackFires res t \<Rightarrow> record_completion t (fps_hist tr)
               | _ \<Rightarrow> fps_hist tr)"
  by (cases ev) (simp_all add: process_def on_result_def Let_def)

lemma process_hist_drop:
  assumes "length (fps_hist tr) \<le> 30"
  shows "fps_hist (snd (process tr ts_ms ev)) =
     drop (length (fps_hist tr @ completion_of ev) - 30) (fps_hist tr @ completion_of ev)"
  using assms by (cases ev) (simp_all only: process_hist engine_event.case
      completion_of.simps record_completion_drop, simp_all)

lemma process_hist_length:
  "length (fps_hist tr) \<le> 30 \<Longrightarrow> length (fps_hist (snd (process tr ts_ms ev))) \<le> 30"
  by (cases ev) (simp_all add: process_hist length_record_completion)

lemma run_events_hist:
  "length (fps_hist tr) \<le> 30 \<Longrightarrow>
   fps_hist (run_events tr es) =
     drop (length (fps_hist tr @ completions es) - 30) (fps_hist tr @ completions es)"
proof (induction es arbitrary: tr)
  case Nil
  then show ?case by (simp add: completions_def)
next
  case (Cons e es)
  obtain ts_ms ev where e: "e = (ts_ms, ev)"
    by (cases e) auto
  let ?tr = "snd (process tr ts_ms ev)"
  have len: "length (fps_hist ?tr) \<le> 30"
    using Cons.prems by (rule process_hist_length)
  have "fps_hist (run_events tr (e # es)) = fps_hist (run_events ?tr es)"
    by (simp add: e)
  also have "\<dots> = drop (length (fps_hist ?tr @ completions es) - 30)
                      (fps_hist ?tr @ completions es)"
    by (rule Cons.IH [OF len])
  also have "\<dots> = drop (length (fps_hist tr @ completions (e # es)) - 30)
                      (fps_hist tr @ completions (e # es))"
  proof -
    have "fps_hist ?tr = drop (length (fps_hist tr @ completion_of ev) - 30)
                              (fps_hist tr @ completion_of ev)"
      using Cons.prems by (rule process_hist_drop)
    moreover have "fps_hist tr @ completions (e # es) =
        (fps_hist tr @ completion_of ev) @ completions es"
      by (simp add: e completions_def)
    ultimately show ?thesis
      by (simp only: drop_last_append)
  qed
  finally show ?case .
qed

section \<open>Properties of the response assembler\<close>

lemma build_payload_absent:
  assumes "header_ts env header (time_build env) = Inr ts_ms"
    and "result = None \<or> (\<exists>res. result = Some res \<and> face_landmarks res = [])"
  shows "build_payload env result header fps_server =
     Inr ((build_empty_payload ts_ms False)\<lparr>debug_serverFps := fps_server\<rparr>)"
  using assms by (auto simp: build_payload_def Let_def)

lemma build_payload_face:
  assumes hdr: "header_ts env header (time_build env) = Inr ts_ms"
    and get: "header_get header ''ts'' = Inr v"
    and faces: "face_landmarks res \<noteq> []"
    and pose: "(if facial_transformation_matrixes res \<noteq> []
      then extract_pose_from_matrix (hd (facial_transformation_matrixes res))
      else estimate_pose_from_landmarks (hd (face_landmarks res))) = Inr (yaw, pitch, roll)"
  shows "build_payload env (Some res) header fps_server =
     Inr \<lparr>payload_ts = ts_ms, payload_present = True,
          pose_yawDeg = yaw, pose_pitchDeg = pitch, pose_rollDeg = roll,
          eye_leftOpen = max 0 (1 - blendshape_lookup (face_blendshapes res) ''eyeBlinkLeft''),
          eye_rightOpen = max 0 (1 - blendshape_lookup (face_blendshapes res) ''eyeBlinkRight''),
          mouth_open = min 1 (blendshape_lookup (face_blendshapes res) ''jawOpen''),
          mouth_smile = (blendshape_lookup (face_blendshapes res) ''mouthSmileLeft'' +
                         blendshape_lookup (face_blendshapes res) ''mouthSmileRight'') * (1 / 2),
          brow_leftUp = max (blendshape_lookup (face_blendshapes res) ''browInnerUp'')
                            (blendshape_lookup (face_blendshapes res) ''browOuterUpLeft''),
          brow_rightUp = max (blendshape_lookup (face_blendshapes res) ''browInnerUp'')
                             (blendshape_lookup (face_blendshapes res) ''browOuterUpRight''),
          debug_serverFps = fps_server,
          debug_latencyMs = (if py_truthy v then max 0 (py_trunc (time_latency env) - ts_ms) else 0)\<rparr>"
proof -
  have lat: "py_truthy v \<Longrightarrow> py_int (int_of_str env) (the v) = Inr ts_ms"
    using hdr get by (cases v) (auto simp: header_ts_def)
  show ?thesis
  proof (cases "py_truthy v")
    case True
    with lat have "py_int (int_of_str env) (the v) = Inr ts_ms" by simp
    with True hdr get faces pose show ?thesis
      by (simp add: build_payload_def Let_def build_empty_payload_def)
  next
    case False
    with hdr get faces pose show ?thesis
      by (simp add: build_payload_def Let_def build_empty_payload_def)
  qed
qed

lemma build_payload_pose_fault:
  assumes hdr: "header_ts env header (time_build env) = Inr ts_ms"
    and faces: "face_landmarks res \<noteq> []"
    and pose: "(if facial_transformation_matrixes res \<noteq> []
      then extract_pose_from_matrix (hd (facial_transformation_matrixes res))
      else estimate_pose_from_landmarks (hd (face_landmarks res))) = Inl e"
  shows "build_payload env (Some res) header fps_server = Inl e"
  using assms by (simp add: build_payload_def Let_def)

lemma estimate_pose_eq:
  assumes "263 < length lms"
  shows "estimate_pose_from_landmarks lms =
     Inr (degrees (atan2 (lm_z (lms ! 263) - lm_z (lms ! 33)) (lm_x (lms ! 263) - lm_x (lms ! 33))),
          degrees (atan2 (lm_z (lms ! 1)) (lm_y (lms ! 263) - lm_y (lms ! 33))),
          degrees (atan2 (lm_y (lms ! 263) - lm_y (lms ! 33)) (lm_x (lms ! 263) - lm_x (lms ! 33))))"
  using assms by (simp add: estimate_pose_from_landmarks_def lm_vec_def Let_def)

lemma tilted_nth:
  "length tilted_landmarks = 264"
  "tilted_landmarks ! 263 = Landmark 1 1 0"
  "tilted_landmarks ! 33 = Landmark 0 0 0"
  "tilted_landmarks ! Suc 0 = Landmark 0 0 0"
  by (simp_all add: tilted_landmarks_def)

lemma find_score_unit:
  "\<forall>c\<in>set cs. 0 \<le> score c \<and> score c \<le> 1 \<Longrightarrow>
   0 \<le> find_score cs name \<and> find_score cs name \<le> 1"
  by (induction cs) auto

lemma blendshape_lookup_unit:
  assumes "\<forall>cs\<in>set blend. \<forall>c\<in>set cs. 0 \<le> score c \<and> score c \<le> 1"
  shows "0 \<le> blendshape_lookup blend name \<and> blendshape_lookup blend name \<le> 1"
proof (cases blend)
  case Nil
  then show ?thesis by (simp add: blendshape_lookup_def)
next
  case (Cons first rest)
  with assms have "\<forall>c\<in>set first. 0 \<le> score c \<and> score c \<le> 1" by simp
  from find_score_unit [OF this] Cons show ?thesis
    by (simp add: blendshape_lookup_def)
qed

lemma build_payload_face_fields:
  assumes ok: "build_payload env (Some res) header fps_server = Inr p"
    and faces: "face_landmarks res \<noteq> []"
  shows "eye_leftOpen p = max 0 (1 - blendshape_lookup (face_blendshapes res) ''eyeBlinkLeft'')"
    and "eye_rightOpen p = max 0 (1 - blendshape_lookup (face_blendshapes res) ''eyeBlinkRight'')"
    and "mouth_open p = min 1 (blendshape_lookup (face_blendshapes res) ''jawOpen'')"
    and "mouth_smile p = (blendshape_lookup (face_blendshapes res) ''mouthSmileLeft'' +
                         blendshape_lookup (face_blendshapes res) ''mouthSmileRight'') * (1 / 2)"
    and "brow_leftUp p = max (blendshape_lookup (face_blendshapes res) ''browInnerUp'')
                            (blendshape_lookup (face_blendshapes res) ''browOuterUpLeft'')"
    and "brow_rightUp p = max (blendshape_lookup (face_blendshapes res) ''browInnerUp'')
                             (blendshape_lookup (face_blendshapes res) ''browOuterUpRight'')"
proof -
  obtain ts_ms where hdr: "header_ts env header (time_build env) = Inr ts_ms"
    using ok by (cases "header_ts env header (time_build env)") (auto simp: build_payload_def)
  obtain v where get: "header_get header ''ts'' = Inr v"
    using hdr by (cases "header_get header ''ts''") (auto simp: header_ts_def)
  let ?pose = "if facial_transformation_matrixes res \<noteq> []
      then extract_pose_from_matrix (hd (facial_transformation_matrixes res))
      else estimate_pose_from_landmarks (hd (face_landmarks res))"
  obtain yaw pitch roll where pose: "?pose = Inr (yaw, pitch, roll)"
  proof (cases ?pose)
    case (Inl e)
    from build_payload_pose_fault [OF hdr faces this] ok show ?thesis by simp
  next
    case (Inr t)
    then show ?thesis using that by (cases t) auto
  qed
  note eq = build_payload_face [OF hdr get faces pose, of fps_server]
  from eq ok have p: "p = \<lparr>payload_ts = ts_ms, payload_present = True,
          pose_yawDeg = yaw, pose_pitchDeg = pitch, pose_rollDeg = roll,
          eye_leftOpen = max 0 (1 - blendshape_lookup (face_blendshapes res) ''eyeBlinkLeft''),
          eye_rightOpen = max 0 (1 - blendshape_lookup (face_blendshapes res) ''eyeBlinkRight''),
          mouth_open = min 1 (blendshape_lookup (face_blendshapes res) ''jawOpen''),
          mouth_smile = (blendshape_lookup (face_blendshapes res) ''mouthSmileLeft'' +
                         blendshape_lookup (face_blendshapes res) ''mouthSmileRight'') * (1 / 2),
          brow_leftUp = max (blendshape_lookup (face_blendshapes res) ''browInnerUp'')
                            (blendshape_lookup (face_blendshapes res) ''browOuterUpLeft''),
          brow_rightUp = max (blendshape_lookup (face_blendshapes res) ''browInnerUp'')
                             (blendshape_lookup (face_blendshapes res) ''browOuterUpRight''),
          debug_serverFps = fps_server,
          debug_latencyMs = (if py_truthy v then max 0 (py_trunc (time_latency env) - ts_ms) else 0)\<rparr>"
    by simp
  show "eye_leftOpen p = max 0 (1 - blendshape_lookup (face_blendshapes res) ''eyeBlinkLeft'')"
    by (simp add: p)
  show "eye_rightOpen p = max 0 (1 - blendshape_lookup (face_blendshapes res) ''eyeBlinkRight'')"
    by (simp add: p)
  show "mouth_open p = min 1 (blendshape_lookup (face_blendshapes res) ''jawOpen'')"
    by (simp add: p)
  show "mouth_smile p = (blendshape_lookup (face_blendshapes res) ''mouthSmileLeft'' +
                         blendshape_lookup (face_blendshapes res) ''mouthSmileRight'') * (1 / 2)"
    by (simp add: p)
  show "brow_leftUp p = max (blendshape_lookup (face_blendshapes res) ''browInnerUp'')
                            (blendshape_lookup (face_blendshapes res) ''browOuterUpLeft'')"
    by (simp add: p)
  show "brow_rightUp p = max (blendshape_lookup (face_blendshapes res) ''browInnerUp'')
                             (blendshape_lookup (face_blendshapes res) ''browOuterUpRight'')"
    by (simp add: p)
qed

lemma tilted_payload:
  "build_payload example_env (Some tilted_result) example_header 0 =
     Inr \<lparr>payload_ts = 1000, payload_present = True,
          pose_yawDeg = 0, pose_pitchDeg = 0, pose_rollDeg = 45,
          eye_leftOpen = 1, eye_rightOpen = 1,
          mouth_open = 3 / 5, mouth_smile = 0,
          brow_leftUp = 0, brow_rightUp = 0,
          debug_serverFps = 0, debug_latencyMs = 4000\<rparr>"
proof -
  have hdr: "header_ts example_env example_header (time_build example_env) = Inr 1000"
    by (simp add: header_ts_def header_get_def example_header_def example_env_def)
  have get: "header_get example_header ''ts'' = Inr (Some (JInt 1000))"
    by (simp add: header_get_def example_header_def)
  have faces: "face_landmarks tilted_result \<noteq> []"
    by (simp add: tilted_result_def)
  have ang: "degrees (atan2 1 1) = 45" "degrees (atan2 0 1) = 0"
    by (simp_all add: atan2_def degrees_def arctan_one)
  have pose: "(if facial_transformation_matrixes tilted_result \<noteq> []
      then extract_pose_from_matrix (hd (facial_transformation_matrixes tilted_result))
      else estimate_pose_from_landmarks (hd (face_landmarks tilted_result))) = Inr (0, 0, 45)"
    using estimate_pose_eq [of tilted_landmarks]
    by (simp add: tilted_result_def tilted_nth ang)
  have lat: "py_trunc (time_latency example_env) = 5000"
    by (simp add: py_trunc_def example_env_def)
  from build_payload_face [OF hdr get faces pose, of 0] show ?thesis
    by (simp add: lat tilted_result_def blendshape_lookup_def)
qed

section \<open>Properties of the connection loop\<close>


lemma ws_track_break:
  "handle_message env tr m = (sent, Break, tr') \<Longrightarrow> ws_track tr ((env, m) # rest) = (sent, tr')"
  by simp


lemma try_body_frame:
  assumes "loads env (take (from_bytes_little (take 4 raw)) (drop 4 raw)) = Inr header"
    and "decode_jpeg env (drop (4 + from_bytes_little (take 4 raw)) raw) = Inr (Some frame_rgb)"
    and "header_ts env header (time_recv env) = Inr ts_ms"
  shows "try_body env tr (Bytes raw) =
     (case process tr ts_ms (engine env) of
        (Inl e, tr') \<Rightarrow> (Inl e, [], tr')
      | (Inr result, tr') \<Rightarrow>
          (case build_payload env result header (fps tr') of
             Inl e \<Rightarrow> (Inl e, [], tr')
           | Inr payload \<Rightarrow> send_in_try env (PayloadMsg payload) tr'))"
  using assms by (simp add: try_body_def Let_def)

lemma process_raises_eq:
  "process tr ts_ms (DetectRaises e) = (Inl e, tr\<lparr>future := Some Pending\<rparr>)"
  by (simp add: process_def)

lemma header_ts_any_clock:
  assumes "header_ts env header a = Inr t"
  obtains t' where "header_ts env header b = Inr t'"
  using assms
  by (cases "header_get header ''ts''")
     (auto simp: header_ts_def split: option.splits)

lemma except_clauses_other:
  "e \<noteq> WebSocketDisconnect \<Longrightarrow> (\<forall>s. e \<noteq> RuntimeError s) \<Longrightarrow>
   except_clauses env e =
     (if send_text env (ErrorMsg (exn_str e)) = None then [ErrorMsg (exn_str e)] else [], Continue)"
  by (cases e) (auto split: option.splits)

lemma pose_fault_class:
  assumes "(if facial_transformation_matrixes res \<noteq> []
      then extract_pose_from_matrix (hd (facial_transformation_matrixes res))
      else estimate_pose_from_landmarks (hd (face_landmarks res))) = Inl e"
  shows "e \<noteq> WebSocketDisconnect \<and> (\<forall>s. e \<noteq> RuntimeError s)"
  using assms
  by (auto simp: extract_pose_from_matrix_def estimate_pose_from_landmarks_def Let_def
           split: if_splits)

lemma example_raw_parts:
  "from_bytes_little (take 4 example_raw) = 11"
  "take 11 (drop 4 example_raw) = ts_header_bytes"
  "drop 15 example_raw = [255, 216]"
  by (simp_all add: example_raw_def ts_header_bytes_def)

lemma example_env_pre:
  assumes "loads env = example_loads"
    and "cv2_imdecode env = (\<lambda>bs. if bs = [] then Inr None else Inr (Some bs))"
    and "cv2_cvtColor env = (\<lambda>img. img)"
  shows "loads env (take (from_bytes_little (take 4 example_raw)) (drop 4 example_raw)) =
      Inr example_header"
    and "decode_jpeg env (drop (4 + from_bytes_little (take 4 example_raw)) example_raw) =
      Inr (Some [255, 216])"
    and "header_ts env example_header now = Inr 1000"
  using assms
  by (simp_all add: example_raw_parts example_loads_def decode_jpeg_def
        header_ts_def header_get_def example_header_def)

section \<open>The claims\<close>

subsection \<open>Throughput\<close>

text \<open>
  Claim C4. \<open>fps()\<close> is 0 when the history has fewer than 2 entries; otherwise, with
  \<open>dt\<close> the newest entry minus the oldest, it is 0 when \<open>dt \<le> 0\<close> and
  \<open>(count - 1) / (dt / 1000)\<close> when \<open>dt > 0\<close>; the history \<open>[1000, 1100, 1200]\<close>
  gives 10.
\<close>

theorem fps_spec:
  "(length (fps_hist tr) < 2 \<longrightarrow> fps tr = 0) \<and>
   (2 \<le> length (fps_hist tr) \<and> last (fps_hist tr) - hd (fps_hist tr) \<le> 0 \<longrightarrow> fps tr = 0) \<and>
   (2 \<le> length (fps_hist tr) \<and> 0 < last (fps_hist tr) - hd (fps_hist tr) \<longrightarrow>
      fps tr = (real (length (fps_hist tr)) - 1) /
               (real_of_int (last (fps_hist tr) - hd (fps_hist tr)) / 1000)) \<and>
   fps (init_tracker\<lparr>fps_hist := [1000, 1100, 1200]\<rparr>) = 10"
  by (simp add: fps_def Let_def init_tracker_def)

theorem fps_spec_witness:
  "length (fps_hist (init_tracker\<lparr>fps_hist := [1000]\<rparr>)) < 2 \<and>
   fps (init_tracker\<lparr>fps_hist := [1000]\<rparr>) = 0 \<and>
   2 \<le> length (fps_hist (init_tracker\<lparr>fps_hist := [1200, 1100, 1000]\<rparr>)) \<and>
   last (fps_hist (init_tracker\<lparr>fps_hist := [1200, 1100, 1000]\<rparr>)) -
     hd (fps_hist (init_tracker\<lparr>fps_hist := [1200, 1100, 1000]\<rparr>)) \<le> 0 \<and>
   fps (init_tracker\<lparr>fps_hist := [1200, 1100, 1000]\<rparr>) = 0 \<and>
   2 \<le> length (fps_hist (init_tracker\<lparr>fps_hist := [1000, 1100, 1200]\<rparr>)) \<and>
   0 < last (fps_hist (init_tracker\<lparr>fps_hist := [1000, 1100, 1200]\<rparr>)) -
     hd (fps_hist (init_tracker\<lparr>fps_hist := [1000, 1100, 1200]\<rparr>)) \<and>
   fps (init_tracker\<lparr>fps_hist := [1000, 1100, 1200]\<rparr>) = (3 - 1) / (200 / 1000)"
  using fps_spec [of "init_tracker\<lparr>fps_hist := [1000]\<rparr>"]
    fps_spec [of "init_tracker\<lparr>fps_hist := [1200, 1100, 1000]\<rparr>"]
    fps_spec [of "init_tracker\<lparr>fps_hist := [1000, 1100, 1200]\<rparr>"]
  by (simp add: init_tracker_def)

subsection \<open>The rolling history\<close>

text \<open>
  Claim C5. Whatever calls of \<open>process\<close> a fresh tracker has served, its history has at
  most 30 entries and is the last 30 of the completion timestamps recorded, in order of
  arrival (so the oldest is the one that was dropped); after 40 completions it is the
  last 30 of them.
\<close>

theorem history_latest_30:
  "length (fps_hist (run_events init_tracker es)) \<le> 30 \<and>
   fps_hist (run_events init_tracker es) =
     drop (length (completions es) - 30) (completions es) \<and>
   (length (completions es) = 40 \<longrightarrow>
      fps_hist (run_events init_tracker es) = drop 10 (completions es))"
proof -
  have "length (fps_hist init_tracker) \<le> 30"
    by (simp add: init_tracker_def)
  from run_events_hist [OF this, of es]
  have h: "fps_hist (run_events init_tracker es) =
     drop (length (completions es) - 30) (completions es)"
    by (simp add: init_tracker_def)
  then show ?thesis by simp
qed

theorem history_latest_30_witness:
  "length (completions (map (\<lambda>i. (int i, CallbackFires example_result (int i))) [0..<40])) = 40 \<and>
   fps_hist (run_events init_tracker
       (map (\<lambda>i. (int i, CallbackFires example_result (int i))) [0..<40])) =
     map int [10..<40]"
  using history_latest_30 [of "map (\<lambda>i. (int i, CallbackFires example_result (int i))) [0..<40]"]
  by (simp add: completions_def comp_def concat_map_singleton drop_map)

subsection \<open>Timeouts\<close>

text \<open>
  Claim C10. A call of \<open>process\<close> that ends in the timeout returns \<open>None\<close> and leaves the
  history as it was, so \<open>fps()\<close> gives the same value after it as before.
\<close>

theorem timeout_keeps_history:
  "fst (process tr ts_ms TimeoutElapses) = Inr None \<and>
   fps_hist (snd (process tr ts_ms TimeoutElapses)) = fps_hist tr \<and>
   fps (snd (process tr ts_ms TimeoutElapses)) = fps tr"
  by (simp add: process_timeout_eq fps_def)

text \<open>
  Claim C1 says that the late callback of a request that timed out never completes the
  pending slot of a newer request. The tracker has one slot and \<open>_on_result\<close> completes
  whatever future is in it: the call for the frame of timestamp 1000 times out, the call
  for the frame of timestamp 2000 is pending when the callback for timestamp 1000
  fires, and that call returns the late result and records 1000.
\<close>

theorem late_callback_counterexample:
  "fst (process init_tracker 1000 TimeoutElapses) = Inr None \<and>
   fst (process (snd (process init_tracker 1000 TimeoutElapses)) 2000
          (CallbackFires example_result 1000)) = Inr (Some example_result) \<and>
   future (snd (process (snd (process init_tracker 1000 TimeoutElapses)) 2000
          (CallbackFires example_result 1000))) = Some (Done (example_result, 1000)) \<and>
   fps_hist (snd (process (snd (process init_tracker 1000 TimeoutElapses)) 2000
          (CallbackFires example_result 1000))) = [1000]"
  by (simp add: process_timeout_eq process_callback_eq init_tracker_def record_completion_def)

text \<open>
  Claim C1, amended. After a call for timestamp \<open>tsA\<close> has timed out, its late callback
  is discarded by the slot only when it fires while no newer request is pending: the
  future is cancelled by then, the history is untouched, and the next call returns its
  own result. When it fires while a newer call is pending, it completes that call, which
  returns the older result and records the older timestamp.
\<close>

theorem late_callback_attribution:
  "future (on_result (snd (process tr tsA TimeoutElapses)) rA tsA) = Some Cancelled \<and>
   fps_hist (on_result (snd (process tr tsA TimeoutElapses)) rA tsA) = fps_hist tr \<and>
   fst (process (on_result (snd (process tr tsA TimeoutElapses)) rA tsA) tsB
          (CallbackFires rB tB)) = Inr (Some rB) \<and>
   fst (process (snd (process tr tsA TimeoutElapses)) tsB (CallbackFires rA tsA)) =
     Inr (Some rA) \<and>
   fps_hist (snd (process (snd (process tr tsA TimeoutElapses)) tsB (CallbackFires rA tsA))) =
     record_completion tsA (fps_hist tr)"
  by (simp add: process_timeout_eq process_callback_eq on_result_def)

subsection \<open>The response assembler\<close>

text \<open>
  Claim C7. For a header whose \<open>ts\<close> is the integer \<open>T\<close> and a detection result that is
  absent or has no face, \<open>build_payload\<close> returns a payload with \<open>present = false\<close>,
  \<open>ts = T\<close>, both eyes open at 1, and mouth and brow fields at 0.
\<close>

theorem absent_payload:
  assumes "map_of kvs ''ts'' = Some (JInt T)"
    and "result = None \<or> (\<exists>res. result = Some res \<and> face_landmarks res = [])"
  shows "\<exists>p. build_payload env result (JObj kvs) fps_server = Inr p \<and>
     payload_present p = False \<and> payload_ts p = T \<and>
     eye_leftOpen p = 1 \<and> eye_rightOpen p = 1 \<and>
     mouth_open p = 0 \<and> mouth_smile p = 0 \<and>
     brow_leftUp p = 0 \<and> brow_rightUp p = 0"
proof -
  have "header_ts env (JObj kvs) (time_build env) = Inr T"
    using assms(1) by (simp add: header_ts_def header_get_def)
  from build_payload_absent [OF this assms(2)]
  show ?thesis by (simp add: build_empty_payload_def)
qed

theorem absent_payload_witness:
  "map_of [(''ts'', JInt 1000)] ''ts'' = Some (JInt 1000) \<and>
   (\<exists>p. build_payload example_env None (JObj [(''ts'', JInt 1000)]) 0 = Inr p \<and>
     payload_present p = False \<and> payload_ts p = 1000 \<and>
     eye_leftOpen p = 1 \<and> eye_rightOpen p = 1 \<and>
     mouth_open p = 0 \<and> mouth_smile p = 0 \<and>
     brow_leftUp p = 0 \<and> brow_rightUp p = 0)"
  using absent_payload [of "[(''ts'', JInt 1000)]" 1000 None example_env 0]
  by simp

subsection \<open>Pose\<close>

text \<open>
  Claim C8. For a 4x4 matrix with \<open>sy = sqrt (r00\<^sup>2 + r10\<^sup>2) < 1e-6\<close>,
  \<open>extract_pose_from_matrix\<close> returns (it raises nothing) yaw \<open>atan2 (-r20) sy\<close> and
  pitch \<open>atan2 (-r12) r11\<close>, both in degrees, and roll 0.
\<close>

theorem singular_pose:
  assumes "length m = 16"
    and "sqrt (m ! 0 * m ! 0 + m ! 4 * m ! 4) < 1 / 1000000"
  shows "extract_pose_from_matrix m =
     Inr (degrees (atan2 (- (m ! 8)) (sqrt (m ! 0 * m ! 0 + m ! 4 * m ! 4))),
          degrees (atan2 (- (m ! 6)) (m ! 5)),
          0)"
  using assms by (simp add: extract_pose_from_matrix_def Let_def)

theorem singular_pose_witness:
  "length singular_matrix = 16 \<and>
   sqrt (singular_matrix ! 0 * singular_matrix ! 0 + singular_matrix ! 4 * singular_matrix ! 4)
     < 1 / 1000000 \<and>
   extract_pose_from_matrix singular_matrix = Inr (90, 0, 0)"
  using singular_pose [of singular_matrix]
  by (simp add: singular_matrix_def atan2_def degrees_def)



subsection \<open>Blendshape fields\<close>

text \<open>
  Claim C6 says that with arbitrary scores every eye, mouth and brow field of the payload
  lies in \<open>[0, 1]\<close>. The clamps of \<open>build_payload\<close> are one-sided and the smile and
  brow fields have none: with both smile scores at 2 and the left blink score at -1 the
  payload has \<open>mouth.smile = 2\<close> and \<open>eye.leftOpen = 2\<close>.
\<close>

theorem unit_interval_counterexample:
  "face_landmarks smiling_result \<noteq> [] \<and>
   build_payload example_env (Some smiling_result) example_header 0 =
     Inr \<lparr>payload_ts = 1000, payload_present = True,
          pose_yawDeg = 0, pose_pitchDeg = 0, pose_rollDeg = 45,
          eye_leftOpen = 2, eye_rightOpen = 1,
          mouth_open = 0, mouth_smile = 2,
          brow_leftUp = 0, brow_rightUp = 0,
          debug_serverFps = 0, debug_latencyMs = 4000\<rparr>"
proof -
  have hdr: "header_ts example_env example_header (time_build example_env) = Inr 1000"
    by (simp add: header_ts_def header_get_def example_header_def example_env_def)
  have get: "header_get example_header ''ts'' = Inr (Some (JInt 1000))"
    by (simp add: header_get_def example_header_def)
  have faces: "face_landmarks smiling_result \<noteq> []"
    by (simp add: smiling_result_def)
  have ang: "degrees (atan2 1 1) = 45" "degrees (atan2 0 1) = 0"
    by (simp_all add: atan2_def degrees_def arctan_one)
  have pose: "(if facial_transformation_matrixes smiling_result \<noteq> []
      then extract_pose_from_matrix (hd (facial_transformation_matrixes smiling_result))
      else estimate_pose_from_landmarks (hd (face_landmarks smiling_result))) = Inr (0, 0, 45)"
    using estimate_pose_eq [of tilted_landmarks]
    by (simp add: smiling_result_def tilted_nth ang)
  have lat: "py_trunc (time_latency example_env) = 5000"
    by (simp add: py_trunc_def example_env_def)
  from build_payload_face [OF hdr get faces pose, of 0] faces show ?thesis
    by (simp add: lat smiling_result_def blendshape_lookup_def)
qed

text \<open>
  Claim C6, amended. In every payload built for a result with a face, \<open>eye.leftOpen\<close>
  and \<open>eye.rightOpen\<close> are at least 0 and \<open>mouth.open\<close> is at most 1, whatever the
  scores; when every blendshape score lies in \<open>[0, 1]\<close>, all six eye, mouth and brow
  fields lie in \<open>[0, 1]\<close>.
\<close>

theorem blendshape_fields_bounds:
  assumes ok: "build_payload env (Some res) header fps_server = Inr p"
    and faces: "face_landmarks res \<noteq> []"
  shows "0 \<le> eye_leftOpen p \<and> 0 \<le> eye_rightOpen p \<and> mouth_open p \<le> 1 \<and>
    ((\<forall>cs\<in>set (face_blendshapes res). \<forall>c\<in>set cs. 0 \<le> score c \<and> score c \<le> 1) \<longrightarrow>
       eye_leftOpen p \<le> 1 \<and> eye_rightOpen p \<le> 1 \<and> 0 \<le> mouth_open p \<and>
       0 \<le> mouth_smile p \<and> mouth_smile p \<le> 1 \<and>
       0 \<le> brow_leftUp p \<and> brow_leftUp p \<le> 1 \<and>
       0 \<le> brow_rightUp p \<and> brow_rightUp p \<le> 1)"
proof -
  note f = build_payload_face_fields [OF ok faces]
  have one: "0 \<le> eye_leftOpen p \<and> 0 \<le> eye_rightOpen p \<and> mouth_open p \<le> 1"
    by (simp add: f)
  have two: "eye_leftOpen p \<le> 1 \<and> eye_rightOpen p \<le> 1 \<and> 0 \<le> mouth_open p \<and>
       0 \<le> mouth_smile p \<and> mouth_smile p \<le> 1 \<and>
       0 \<le> brow_leftUp p \<and> brow_leftUp p \<le> 1 \<and>
       0 \<le> brow_rightUp p \<and> brow_rightUp p \<le> 1"
    if u: "\<forall>cs\<in>set (face_blendshapes res). \<forall>c\<in>set cs. 0 \<le> score c \<and> score c \<le> 1"
  proof -
    note b = blendshape_lookup_unit [OF u]
    show ?thesis
      using b [of "''eyeBlinkLeft''"] b [of "''eyeBlinkRight''"] b [of "''jawOpen''"]
        b [of "''mouthSmileLeft''"] b [of "''mouthSmileRight''"] b [of "''browInnerUp''"]
        b [of "''browOuterUpLeft''"] b [of "''browOuterUpRight''"]
      unfolding f by (auto simp: max_def min_def)
  qed
  from one two show ?thesis by blast
qed

theorem blendshape_fields_bounds_witness:
  "face_landmarks tilted_result = [tilted_landmarks] \<and>
   face_blendshapes tilted_result = [[\<lparr>category_name = ''jawOpen'', score = 3 / 5\<rparr>]] \<and>
   (\<exists>p. build_payload example_env (Some tilted_result) example_header 0 = Inr p \<and>
      mouth_open p = 3 / 5 \<and>
      0 \<le> eye_leftOpen p \<and> eye_leftOpen p \<le> 1 \<and>
      0 \<le> eye_rightOpen p \<and> eye_rightOpen p \<le> 1 \<and>
      0 \<le> mouth_open p \<and> mouth_open p \<le> 1 \<and>
      0 \<le> mouth_smile p \<and> mouth_smile p \<le> 1 \<and>
      0 \<le> brow_leftUp p \<and> brow_leftUp p \<le> 1 \<and>
      0 \<le> brow_rightUp p \<and> brow_rightUp p \<le> 1)"
proof -
  have faces: "face_landmarks tilted_result \<noteq> []"
    by (simp add: tilted_result_def)
  have unit: "\<forall>cs\<in>set (face_blendshapes tilted_result). \<forall>c\<in>set cs. 0 \<le> score c \<and> score c \<le> 1"
    by (simp add: tilted_result_def)
  from blendshape_fields_bounds [OF tilted_payload faces] unit tilted_payload
  show ?thesis
    by (simp add: tilted_result_def)
qed

subsection \<open>Faults in the connection loop\<close>




text \<open>
  Claim C3 says that every fault of the detection engine is answered with an error text
  and the connection kept. The clause \<open>except RuntimeError\<close> stands before the general
  one and leaves the loop: when \<open>detect_async\<close> raises a \<open>RuntimeError\<close>, nothing is sent
  and the following message is never handled.
\<close>

theorem engine_fault_counterexample:
  "handle_message (example_env\<lparr>engine := DetectRaises (RuntimeError ''Graph has errors'')\<rparr>)
       init_tracker (Bytes example_raw) =
     ([], Break, init_tracker\<lparr>future := Some Pending\<rparr>) \<and>
   ws_track init_tracker
       [(example_env\<lparr>engine := DetectRaises (RuntimeError ''Graph has errors'')\<rparr>, Bytes example_raw),
        (example_env, Bytes example_raw)] =
     ([], init_tracker\<lparr>future := Some Pending\<rparr>)"
proof -
  let ?env = "example_env\<lparr>engine := DetectRaises (RuntimeError ''Graph has errors'')\<rparr>"
  have e: "loads ?env = example_loads"
    "cv2_imdecode ?env = (\<lambda>bs. if bs = [] then Inr None else Inr (Some bs))"
    "cv2_cvtColor ?env = (\<lambda>img. img)"
    by (simp_all add: example_env_def)
  note pre = example_env_pre [OF e]
  have "try_body ?env init_tracker (Bytes example_raw) =
      (Inl (RuntimeError ''Graph has errors''), [], init_tracker\<lparr>future := Some Pending\<rparr>)"
    using try_body_frame [OF pre(1) pre(2) pre(3) [of "time_recv ?env"], of init_tracker]
    by (simp add: process_raises_eq)
  then have h: "handle_message ?env init_tracker (Bytes example_raw) =
     ([], Break, init_tracker\<lparr>future := Some Pending\<rparr>)"
    by (simp add: handle_message_def)
  from ws_track_break [OF h] h show ?thesis by simp
qed

text \<open>
  Claim C3, amended. For a well-formed message with a decodable image: a fault of the
  detection engine that is neither a \<open>RuntimeError\<close> nor a \<open>WebSocketDisconnect\<close> is
  caught, its text is sent as the error (a failure of that send is ignored) and the loop
  continues; a \<open>RuntimeError\<close> of the engine leaves the loop with nothing sent; a fault
  of the pose math (the reshape of the matrix, the index into the landmarks) is always
  caught, answered with its error text, and the loop continues.
\<close>

theorem per_message_fault_handling:
  assumes hl: "loads env (take (from_bytes_little (take 4 raw)) (drop 4 raw)) = Inr header"
    and dec: "decode_jpeg env (drop (4 + from_bytes_little (take 4 raw)) raw) = Inr (Some frame_rgb)"
    and ts: "header_ts env header (time_recv env) = Inr ts_ms"
  shows "(\<forall>e. engine env = DetectRaises e \<and> e \<noteq> WebSocketDisconnect \<and> (\<forall>s. e \<noteq> RuntimeError s) \<longrightarrow>
       handle_message env tr (Bytes raw) =
         (if send_text env (ErrorMsg (exn_str e)) = None then [ErrorMsg (exn_str e)] else [],
          Continue, tr\<lparr>future := Some Pending\<rparr>)) \<and>
    (\<forall>s. engine env = DetectRaises (RuntimeError s) \<longrightarrow>
       handle_message env tr (Bytes raw) = ([], Break, tr\<lparr>future := Some Pending\<rparr>)) \<and>
    (\<forall>res t e. engine env = CallbackFires res t \<and> face_landmarks res \<noteq> [] \<and>
       (if facial_transformation_matrixes res \<noteq> []
        then extract_pose_from_matrix (hd (facial_transformation_matrixes res))
        else estimate_pose_from_landmarks (hd (face_landmarks res))) = Inl e \<longrightarrow>
       handle_message env tr (Bytes raw) =
         (if send_text env (ErrorMsg (exn_str e)) = None then [ErrorMsg (exn_str e)] else [],
          Continue, snd (process tr ts_ms (CallbackFires res t))))"
proof -
  note body = try_body_frame [OF hl dec ts, of tr]
  have a: "handle_message env tr (Bytes raw) =
         (if send_text env (ErrorMsg (exn_str e)) = None then [ErrorMsg (exn_str e)] else [],
          Continue, tr\<lparr>future := Some Pending\<rparr>)"
    if "engine env = DetectRaises e" "e \<noteq> WebSocketDisconnect" "\<forall>s. e \<noteq> RuntimeError s" for e
  proof -
    have "try_body env tr (Bytes raw) = (Inl e, [], tr\<lparr>future := Some Pending\<rparr>)"
      using body that(1) by (simp add: process_raises_eq)
    then show ?thesis
      using except_clauses_other [OF that(2) that(3), of env]
      by (simp add: handle_message_def)
  qed
  have b: "handle_message env tr (Bytes raw) = ([], Break, tr\<lparr>future := Some Pending\<rparr>)"
    if "engine env = DetectRaises (RuntimeError s)" for s
  proof -
    have "try_body env tr (Bytes raw) = (Inl (RuntimeError s), [], tr\<lparr>future := Some Pending\<rparr>)"
      using body that by (simp add: process_raises_eq)
    then show ?thesis by (simp add: handle_message_def)
  qed
  have c: "handle_message env tr (Bytes raw) =
         (if send_text env (ErrorMsg (exn_str e)) = None then [ErrorMsg (exn_str e)] else [],
          Continue, snd (process tr ts_ms (CallbackFires res t)))"
    if ev: "engine env = CallbackFires res t" and faces: "face_landmarks res \<noteq> []"
      and pose: "(if facial_transformation_matrixes res \<noteq> []
        then extract_pose_from_matrix (hd (facial_transformation_matrixes res))
        else estimate_pose_from_landmarks (hd (face_landmarks res))) = Inl e" for res t e
  proof -
    obtain t2 where hdr: "header_ts env header (time_build env) = Inr t2"
      using ts by (rule header_ts_any_clock)
    have bp: "build_payload env (Some res) header f = Inl e" for f
      by (rule build_payload_pose_fault [OF hdr faces pose])
    have "try_body env tr (Bytes raw) = (Inl e, [], snd (process tr ts_ms (CallbackFires res t)))"
      using body ev by (simp add: process_callback_eq bp)
    moreover from pose_fault_class [OF pose]
    have "e \<noteq> WebSocketDisconnect" "\<forall>s. e \<noteq> RuntimeError s" by simp_all
    ultimately show ?thesis
      using except_clauses_other [of e env]
      by (simp add: handle_message_def)
  qed
  from a b c show ?thesis by blast
qed

theorem per_message_fault_handling_witness:
  "loads example_env (take (from_bytes_little (take 4 example_raw)) (drop 4 example_raw)) =
      Inr example_header \<and>
   decode_jpeg example_env (drop (4 + from_bytes_little (take 4 example_raw)) example_raw) =
      Inr (Some [255, 216]) \<and>
   header_ts example_env example_header (time_recv example_env) = Inr 1000 \<and>
   handle_message
       (example_env\<lparr>engine := DetectRaises (ValueError ''Input timestamp must be monotonically increasing.'')\<rparr>)
       init_tracker (Bytes example_raw) =
     ([ErrorMsg ''Input timestamp must be monotonically increasing.''], Continue,
      init_tracker\<lparr>future := Some Pending\<rparr>) \<and>
   handle_message (example_env\<lparr>engine := DetectRaises (RuntimeError ''Graph has errors'')\<rparr>)
       init_tracker (Bytes example_raw) =
     ([], Break, init_tracker\<lparr>future := Some Pending\<rparr>) \<and>
   face_landmarks example_result \<noteq> [] \<and>
   estimate_pose_from_landmarks (hd (face_landmarks example_result)) =
     Inl (IndexError ''list index out of range'') \<and>
   handle_message (example_env\<lparr>engine := CallbackFires example_result 1000\<rparr>)
       init_tracker (Bytes example_raw) =
     ([ErrorMsg ''list index out of range''], Continue,
      snd (process init_tracker 1000 (CallbackFires example_result 1000)))"
proof -
  let ?e1 = "example_env\<lparr>engine := DetectRaises (ValueError ''Input timestamp must be monotonically increasing.'')\<rparr>"
  let ?e2 = "example_env\<lparr>engine := DetectRaises (RuntimeError ''Graph has errors'')\<rparr>"
  let ?e3 = "example_env\<lparr>engine := CallbackFires example_result 1000\<rparr>"
  have env0: "loads example_env = example_loads"
    "cv2_imdecode example_env = (\<lambda>bs. if bs = [] then Inr None else Inr (Some bs))"
    "cv2_cvtColor example_env = (\<lambda>img. img)"
    by (simp_all add: example_env_def)
  have env1: "loads ?e1 = example_loads"
    "cv2_imdecode ?e1 = (\<lambda>bs. if bs = [] then Inr None else Inr (Some bs))"
    "cv2_cvtColor ?e1 = (\<lambda>img. img)"
    by (simp_all add: example_env_def)
  have env2: "loads ?e2 = example_loads"
    "cv2_imdecode ?e2 = (\<lambda>bs. if bs = [] then Inr None else Inr (Some bs))"
    "cv2_cvtColor ?e2 = (\<lambda>img. img)"
    by (simp_all add: example_env_def)
  have env3: "loads ?e3 = example_loads"
    "cv2_imdecode ?e3 = (\<lambda>bs. if bs = [] then Inr None else Inr (Some bs))"
    "cv2_cvtColor ?e3 = (\<lambda>img. img)"
    by (simp_all add: example_env_def)
  note p0 = example_env_pre [OF env0]
  note p1 = example_env_pre [OF env1]
  note p2 = example_env_pre [OF env2]
  note p3 = example_env_pre [OF env3]
  have faces: "face_landmarks example_result \<noteq> []"
    by (simp add: example_result_def)
  have fault: "estimate_pose_from_landmarks (hd (face_landmarks example_result)) =
     Inl (IndexError ''list index out of range'')"
    by (simp add: example_result_def estimate_pose_from_landmarks_def)
  have none: "facial_transformation_matrixes example_result = []"
    by (simp add: example_result_def)
  have w1: "handle_message ?e1 init_tracker (Bytes example_raw) =
     ([ErrorMsg ''Input timestamp must be monotonically increasing.''], Continue,
      init_tracker\<lparr>future := Some Pending\<rparr>)"
    using per_message_fault_handling [OF p1(1) p1(2) p1(3) [of "time_recv ?e1"], of init_tracker]
    by (simp add: example_env_def)
  have w2: "handle_message ?e2 init_tracker (Bytes example_raw) =
     ([], Break, init_tracker\<lparr>future := Some Pending\<rparr>)"
    using per_message_fault_handling [OF p2(1) p2(2) p2(3) [of "time_recv ?e2"], of init_tracker]
    by (simp add: example_env_def)
  have w3: "handle_message ?e3 init_tracker (Bytes example_raw) =
     ([ErrorMsg ''list index out of range''], Continue,
      snd (process init_tracker 1000 (CallbackFires example_result 1000)))"
    using per_message_fault_handling [OF p3(1) p3(2) p3(3) [of "time_recv ?e3"], of init_tracker]
      faces fault none
    by (simp add: example_env_def)
  from p0(1) p0(2) p0(3) [of "time_recv example_env"] w1 w2 faces fault w3
  show ?thesis by simp
qed

end
